theory Spec2Isabelle
  imports Complex_Main "HOL-Library.AList" "HOL-Library.Char_ord" "HOL-Library.List_Lexorder"
begin

section \<open>Core types (src/core/types/index.ts)\<close>

text \<open>
  Strings are lists of characters. Timestamps (\<open>Date.now()\<close>) are integers; every
  function that reads the clock or draws a random UUID takes the value as an argument.
  Nutrition figures are plain stored numbers.
\<close>

datatype MessageRole = User | Assistant | System

record ChatMessage =
  msg_id :: string
  role :: MessageRole
  content :: string
  timestamp :: int

record NutritionData =
  calories :: real
  protein :: real
  carbs :: real
  fat :: real
  fiber :: "real option"

record MealAnalysis =
  mealName :: string
  nutrition :: NutritionData
  healthScore :: real
  insights :: "string list"

datatype FitnessGoal = WeightLoss | MuscleGain | Maintenance

record UserGoals =
  dailyCalories :: "real option"
  dailyProtein :: "real option"
  dietaryRestrictions :: "string list option"
  fitnessGoal :: "FitnessGoal option"

text \<open>A value of type \<open>any\<close>: what \<open>JSON.parse\<close> can return.\<close>

datatype json =
    JNull
  | JBool bool
  | JNum real
  | JStr string
  | JArr "json list"
  | JObj "(string \<times> json) list"

section \<open>Message entity (src/core/entities/Message.ts)\<close>

text \<open>
  \<open>new Message(role, content)\<close> followed by \<open>toJSON()\<close>: the id is the random UUID
  \<open>uuid\<close> and the timestamp is the clock value \<open>now\<close>.
\<close>

definition Message :: "MessageRole \<Rightarrow> string \<Rightarrow> string \<Rightarrow> int \<Rightarrow> ChatMessage" where
  "Message r c uuid now = \<lparr>msg_id = uuid, role = r, content = c, timestamp = now\<rparr>"

section \<open>NutritionContext entity (src/core/entities/NutritionContext.ts)\<close>

record NutritionContext =
  conversationHistory :: "ChatMessage list"
  currentMeal :: "MealAnalysis option"
  userGoals :: "UserGoals option"
  sessionStartTime :: int

text \<open>The constructor: empty history, session start read from the clock.\<close>

definition newNutritionContext :: "int \<Rightarrow> NutritionContext" where
  "newNutritionContext now =
     \<lparr>conversationHistory = [], currentMeal = None, userGoals = None, sessionStartTime = now\<rparr>"

text \<open>
  \<open>xs.slice(-n)\<close> for \<open>n > 0\<close>: the last \<open>n\<close> elements, the whole array when it is
  shorter (the start index \<open>length - n\<close> is clamped at \<open>0\<close>, as subtraction on \<open>nat\<close> is).
\<close>

definition sliceLast :: "nat \<Rightarrow> 'a list \<Rightarrow> 'a list" where
  "sliceLast n xs = drop (length xs - n) xs"

definition addMessage :: "NutritionContext \<Rightarrow> ChatMessage \<Rightarrow> NutritionContext" where
  "addMessage ctx message =
     (let pushed = conversationHistory ctx @ [message]
      in if length pushed > 20
         then ctx\<lparr>conversationHistory := sliceLast 20 pushed\<rparr>
         else ctx\<lparr>conversationHistory := pushed\<rparr>)"

text \<open>\<open>getRecentMessages(count)\<close>: \<open>slice(-0)\<close> is \<open>slice(0)\<close>, the whole history.\<close>

definition getRecentMessages :: "NutritionContext \<Rightarrow> nat \<Rightarrow> ChatMessage list" where
  "getRecentMessages ctx count =
     (if count = 0 then conversationHistory ctx
      else sliceLast count (conversationHistory ctx))"

text \<open>The plain object written to storage; \<open>fromJSON\<close> reads it as \<open>any\<close>, so the
  fields it defaults with \<open>||\<close> may be missing.\<close>

record NutritionContextData =
  d_conversationHistory :: "ChatMessage list option"
  d_currentMeal :: "MealAnalysis option"
  d_userGoals :: "UserGoals option"
  d_sessionStartTime :: int

definition NutritionContext_toJSON :: "NutritionContext \<Rightarrow> NutritionContextData" where
  "NutritionContext_toJSON ctx =
     \<lparr>d_conversationHistory = Some (conversationHistory ctx),
      d_currentMeal = currentMeal ctx,
      d_userGoals = userGoals ctx,
      d_sessionStartTime = sessionStartTime ctx\<rparr>"

text \<open>\<open>fromJSON\<close> runs the constructor (clock value \<open>now\<close>) and then overwrites every field.
  An array is truthy even when empty, so \<open>data.conversationHistory || []\<close> defaults only a
  missing field.\<close>

definition NutritionContext_fromJSON :: "int \<Rightarrow> NutritionContextData \<Rightarrow> NutritionContext" where
  "NutritionContext_fromJSON now data =
     (let context = newNutritionContext now;
          context = context\<lparr>conversationHistory :=
                      (case d_conversationHistory data of Some h \<Rightarrow> h | None \<Rightarrow> [])\<rparr>;
          context = context\<lparr>currentMeal := d_currentMeal data\<rparr>;
          context = context\<lparr>userGoals := d_userGoals data\<rparr>
      in context\<lparr>sessionStartTime := d_sessionStartTime data\<rparr>)"

section \<open>UserProfile entity (src/core/entities/UserProfile.ts)\<close>

record UserProfile =
  userId :: string
  goals :: UserGoals
  mealHistory :: "MealAnalysis list"
  preferences :: "(string \<times> json) list"
  createdAt :: int
  updatedAt :: int

text \<open>The empty goals object \<open>{}\<close>, the constructor's default argument.\<close>

definition noGoals :: UserGoals where
  "noGoals = \<lparr>dailyCalories = None, dailyProtein = None,
               dietaryRestrictions = None, fitnessGoal = None\<rparr>"

text \<open>\<open>new UserProfile(userId, goals)\<close>; a missing \<open>goals\<close> argument takes the default.\<close>

definition newUserProfile :: "int \<Rightarrow> string \<Rightarrow> UserGoals option \<Rightarrow> UserProfile" where
  "newUserProfile now uid g =
     \<lparr>userId = uid,
      goals = (case g of Some g' \<Rightarrow> g' | None \<Rightarrow> noGoals),
      mealHistory = [], preferences = [], createdAt = now, updatedAt = now\<rparr>"

definition addMeal :: "int \<Rightarrow> UserProfile \<Rightarrow> MealAnalysis \<Rightarrow> UserProfile" where
  "addMeal now p meal =
     (let pushed = mealHistory p @ [meal];
          p = p\<lparr>mealHistory := pushed, updatedAt := now\<rparr>
      in if length pushed > 30 then p\<lparr>mealHistory := sliceLast 30 pushed\<rparr> else p)"

record UserProfileData =
  d_userId :: string
  d_goals :: "UserGoals option"
  d_mealHistory :: "MealAnalysis list option"
  d_preferences :: "(string \<times> json) list option"
  d_createdAt :: int
  d_updatedAt :: int

definition UserProfile_toJSON :: "UserProfile \<Rightarrow> UserProfileData" where
  "UserProfile_toJSON p =
     \<lparr>d_userId = userId p,
      d_goals = Some (goals p),
      d_mealHistory = Some (mealHistory p),
      d_preferences = Some (preferences p),
      d_createdAt = createdAt p,
      d_updatedAt = updatedAt p\<rparr>"

text \<open>Arrays and objects are truthy, so the \<open>||\<close> defaults replace only missing fields.\<close>

definition UserProfile_fromJSON :: "int \<Rightarrow> UserProfileData \<Rightarrow> UserProfile" where
  "UserProfile_fromJSON now data =
     (let profile = newUserProfile now (d_userId data) (d_goals data);
          profile = profile\<lparr>mealHistory :=
                      (case d_mealHistory data of Some h \<Rightarrow> h | None \<Rightarrow> [])\<rparr>;
          profile = profile\<lparr>preferences :=
                      (case d_preferences data of Some q \<Rightarrow> q | None \<Rightarrow> [])\<rparr>;
          profile = profile\<lparr>createdAt := d_createdAt data\<rparr>
      in profile\<lparr>updatedAt := d_updatedAt data\<rparr>)"

section \<open>Client connection hook (frontend/src/hooks/useWebSocket.ts)\<close>

text \<open>
  The refs and the state of the hook. \<open>wsRef\<close> holds the current socket, recorded by its
  \<open>readyState\<close>, or \<open>null\<close>. \<open>reconnectTimeoutRef\<close> holds the handle of the last
  \<open>setTimeout\<close>, recorded by its delay. \<open>timeouts\<close> lists every delay handed to
  \<open>setTimeout\<close>, oldest first: the reconnect attempts that were scheduled.
\<close>

datatype ReadyState = CONNECTING | OPEN | CLOSING | CLOSED

record Supervisor =
  isConnected :: bool
  wsRef :: "ReadyState option"
  reconnectTimeoutRef :: "nat option"
  reconnectAttemptsRef :: nat
  isConnectingRef :: bool
  shouldReconnectRef :: bool
  timeouts :: "nat list"

definition maxReconnectAttempts :: nat where
  "maxReconnectAttempts = 5"

text \<open>After \<open>useRef\<close>/\<open>useState\<close> initialisation, before the effect runs.\<close>

definition initialSupervisor :: Supervisor where
  "initialSupervisor =
     \<lparr>isConnected = False, wsRef = None, reconnectTimeoutRef = None,
      reconnectAttemptsRef = 0, isConnectingRef = False, shouldReconnectRef = True,
      timeouts = []\<rparr>"

text \<open>\<open>connect()\<close>: nothing happens while an attempt is in flight or a socket is open;
  otherwise a new socket is created, which starts in state CONNECTING (the constructor is
  taken not to throw).\<close>

definition connect :: "Supervisor \<Rightarrow> Supervisor" where
  "connect s =
     (if isConnectingRef s \<or> wsRef s = Some OPEN then s
      else s\<lparr>isConnectingRef := True, wsRef := Some CONNECTING\<rparr>)"

text \<open>\<open>ws.onopen\<close>; the socket held by \<open>wsRef\<close> is open from here on.\<close>

definition onopen :: "Supervisor \<Rightarrow> Supervisor" where
  "onopen s =
     s\<lparr>isConnected := True, reconnectAttemptsRef := 0, isConnectingRef := False,
       wsRef := (case wsRef s of None \<Rightarrow> None | Some _ \<Rightarrow> Some OPEN)\<rparr>"

definition onclose :: "Supervisor \<Rightarrow> Supervisor" where
  "onclose s =
     (let s = s\<lparr>isConnected := False, isConnectingRef := False, wsRef := None\<rparr>
      in if shouldReconnectRef s \<and> reconnectAttemptsRef s < maxReconnectAttempts
         then
           (let s = s\<lparr>reconnectAttemptsRef := reconnectAttemptsRef s + 1\<rparr>;
                delay = min (1000 * 2 ^ reconnectAttemptsRef s) 30000
            in s\<lparr>reconnectTimeoutRef := Some delay, timeouts := timeouts s @ [delay]\<rparr>)
         else s)"

definition onerror :: "Supervisor \<Rightarrow> Supervisor" where
  "onerror s = s\<lparr>isConnectingRef := False\<rparr>"

text \<open>The effect: on mount it allows reconnects and connects; its cleanup forbids
  reconnects, clears the pending timeout and closes the socket.\<close>

definition mount :: "Supervisor \<Rightarrow> Supervisor" where
  "mount s = connect (s\<lparr>shouldReconnectRef := True\<rparr>)"

definition cleanup :: "Supervisor \<Rightarrow> Supervisor" where
  "cleanup s =
     s\<lparr>shouldReconnectRef := False, reconnectTimeoutRef := None, wsRef := None,
       isConnectingRef := False\<rparr>"

text \<open>What can happen to the hook: the socket's events, the reconnect timeout firing
  (its callback is \<open>connect()\<close>), and the effect's cleanup (the intentional shutdown).\<close>

datatype Event = Open | Close | Error | TimerFired | Cleanup

fun step :: "Supervisor \<Rightarrow> Event \<Rightarrow> Supervisor" where
  "step s Open = onopen s"
| "step s Close = onclose s"
| "step s Error = onerror s"
| "step s TimerFired = connect s"
| "step s Cleanup = cleanup s"

definition run :: "Supervisor \<Rightarrow> Event list \<Rightarrow> Supervisor" where
  "run s evs = foldl step s evs"

text \<open>
  \<open>ws.onmessage\<close>. The argument is what \<open>JSON.parse(event.data)\<close> returned as a
  \<open>WebSocketMessage\<close>, or \<open>None\<close> when parsing (or reading a field of the result) threw,
  which the handler catches and logs. The result is the message handed to the
  \<open>onMessage\<close> callback, or \<open>None\<close> when the callback is not called. A field is truthy
  when it is present and not the empty string.
\<close>

record WebSocketMessage =
  wm_type :: "string option"
  wm_role :: "MessageRole option"
  wm_content :: "string option"
  wm_messageId :: "string option"
  wm_timestamp :: int

definition truthy :: "string option \<Rightarrow> bool" where
  "truthy v = (case v of None \<Rightarrow> False | Some x \<Rightarrow> x \<noteq> [])"

definition onmessage :: "string \<Rightarrow> WebSocketMessage option \<Rightarrow> ChatMessage option" where
  "onmessage uuid parsed =
     (case parsed of
        None \<Rightarrow> None
      | Some data \<Rightarrow>
          if wm_type data = Some ''message'' \<and> truthy (wm_content data) then
            Some \<lparr>msg_id = (if truthy (wm_messageId data) then the (wm_messageId data) else uuid),
                  role = (case wm_role data of Some r \<Rightarrow> r | None \<Rightarrow> Assistant),
                  content = the (wm_content data),
                  timestamp = wm_timestamp data\<rparr>
          else if wm_type data = Some ''system'' \<and> truthy (wm_content data) then
            Some \<lparr>msg_id = uuid, role = System, content = the (wm_content data),
                  timestamp = wm_timestamp data\<rparr>
          else if wm_type data = Some ''error'' \<and> truthy (wm_content data) then
            Some \<lparr>msg_id = uuid, role = System,
                  content = ''Error: '' @ the (wm_content data),
                  timestamp = wm_timestamp data\<rparr>
          else None)"

section \<open>Scheduled reminders (src/infrastructure/workflows/ReminderWorkflow.ts)\<close>

datatype WorkflowState = Pending | Running | Completed | Failed | Cancelled

text \<open>The state as it is spelled in an error message.\<close>

fun stateName :: "WorkflowState \<Rightarrow> string" where
  "stateName Pending = ''pending''"
| "stateName Running = ''running''"
| "stateName Completed = ''completed''"
| "stateName Failed = ''failed''"
| "stateName Cancelled = ''cancelled''"

text \<open>\<open>WorkflowStatus\<close> (src/core/interfaces/IWorkflowOrchestrator.ts); its \<open>result\<close>
  field is never written by this class and is left out.\<close>

record WorkflowStatus =
  st_workflowId :: string
  st_workflowName :: string
  state :: WorkflowState
  startedAt :: "int option"
  completedAt :: "int option"
  error :: "string option"

record WorkflowContext =
  ctx_userId :: string
  ctx_workflowId :: string
  data :: "(string \<times> string) list"

text \<open>The value stored under the key \<open>workflow:<id>\<close>.\<close>

record WorkflowData =
  wd_workflowName :: string
  wd_context :: WorkflowContext
  scheduledTime :: int

text \<open>The value stored under the key \<open>reminder:<userId>:<now>\<close>.\<close>

record ReminderEntry =
  re_type :: string
  re_message :: string
  sentAt :: int

text \<open>
  The object and the part of the Durable Object storage it uses, in one record:
  \<^item> \<open>scheduledReminders\<close>: the in-memory \<open>Map\<close> from workflow id to status, in insertion
    order (\<open>Map.set\<close> on a known key keeps its place, as \<open>AList.update\<close> does);
  \<^item> \<open>workflowEntries\<close>: the storage entries \<open>workflow:<id>\<close>, keyed by the id (what
    \<open>key.replace("workflow:", "")\<close> leaves of the key); \<open>storage.list\<close> returns them
    in the order of their keys;
  \<^item> \<open>reminderEntries\<close>: the storage entries \<open>reminder:<userId>:<now>\<close>;
  \<^item> \<open>persisted\<close>: the storage entry \<open>scheduled_reminders\<close>;
  \<^item> \<open>alarm\<close>: the storage's single alarm, \<open>None\<close> when no alarm is set;
  \<^item> \<open>executing\<close>: the ids printed by \<open>console.log("Executing scheduled workflow: ...")\<close>,
    oldest first: the task bodies the alarm handler has run.
  Storage calls are taken to succeed; a sweep reads the clock once.
\<close>

record ReminderWorkflow =
  scheduledReminders :: "(string \<times> WorkflowStatus) list"
  workflowEntries :: "(string \<times> WorkflowData) list"
  reminderEntries :: "((string \<times> int) \<times> ReminderEntry) list"
  persisted :: "(string \<times> WorkflowStatus) list option"
  alarm :: "int option"
  executing :: "string list"

definition emptyReminderWorkflow :: ReminderWorkflow where
  "emptyReminderWorkflow =
     \<lparr>scheduledReminders = [], workflowEntries = [], reminderEntries = [],
      persisted = None, alarm = None, executing = []\<rparr>"

definition persistReminders :: "ReminderWorkflow \<Rightarrow> ReminderWorkflow" where
  "persistReminders s = s\<lparr>persisted := Some (scheduledReminders s)\<rparr>"

text \<open>
  \<open>scheduleWorkflow\<close>, with the scheduled time already a number (a date string is turned
  into one by \<open>Date\<close> first). \<open>uuid\<close> is what \<open>crypto.randomUUID()\<close> would return; it is
  used when the context carries no (or an empty) workflow id. The result is the workflow
  id, or the message of the \<open>Error\<close> thrown: the log line at the end formats the time
  with \<open>toISOString()\<close>, which throws for a time outside the range of \<open>Date\<close>
  (more than 8640000000000000 ms from the epoch), after everything has been written.
\<close>

definition validDate :: "int \<Rightarrow> bool" where
  "validDate t = (- 8640000000000000 \<le> t \<and> t \<le> 8640000000000000)"

definition scheduleWorkflow ::
  "string \<Rightarrow> string \<Rightarrow> WorkflowContext \<Rightarrow> int \<Rightarrow> ReminderWorkflow \<Rightarrow>
   (string + string) \<times> ReminderWorkflow" where
  "scheduleWorkflow uuid workflowName context timestamp' s =
     (let workflowId = (if ctx_workflowId context \<noteq> [] then ctx_workflowId context else uuid);
          status = \<lparr>st_workflowId = workflowId, st_workflowName = workflowName,
                    state = Pending, startedAt = Some timestamp',
                    completedAt = None, error = None\<rparr>;
          s = s\<lparr>workflowEntries :=
                  AList.update workflowId
                    \<lparr>wd_workflowName = workflowName, wd_context = context,
                     scheduledTime = timestamp'\<rparr>
                    (workflowEntries s)\<rparr>;
          s = s\<lparr>scheduledReminders := AList.update workflowId status (scheduledReminders s)\<rparr>;
          s = persistReminders s;
          s = s\<lparr>alarm := Some timestamp'\<rparr>
      in if validDate timestamp' then (Inr workflowId, s)
         else (Inl ''Failed to schedule workflow: Invalid time value'', s))"

text \<open>\<open>cancelWorkflow\<close>: \<open>Inl\<close> carries the message of the \<open>Error\<close> thrown; the object
  is returned as the throw leaves it.\<close>

definition cancelWorkflow ::
  "string \<Rightarrow> int \<Rightarrow> ReminderWorkflow \<Rightarrow> (string + unit) \<times> ReminderWorkflow" where
  "cancelWorkflow workflowId now s =
     (case map_of (scheduledReminders s) workflowId of
        None \<Rightarrow> (Inl (''Workflow '' @ workflowId @ '' not found''), s)
      | Some status \<Rightarrow>
          if state status = Completed \<or> state status = Failed
          then (Inl (''Cannot cancel '' @ stateName (state status) @ '' workflow''), s)
          else
            (let status = status\<lparr>state := Cancelled, completedAt := Some now\<rparr>;
                 s = s\<lparr>scheduledReminders :=
                         AList.update workflowId status (scheduledReminders s)\<rparr>
             in (Inr (), persistReminders s)))"

definition getWorkflowStatus :: "string \<Rightarrow> ReminderWorkflow \<Rightarrow> string + WorkflowStatus" where
  "getWorkflowStatus workflowId s =
     (case map_of (scheduledReminders s) workflowId of
        None \<Rightarrow> Inl (''Workflow '' @ workflowId @ '' not found'')
      | Some status \<Rightarrow> Inr status)"

definition executeMealReminder :: "WorkflowContext \<Rightarrow> int \<Rightarrow> ReminderWorkflow \<Rightarrow> ReminderWorkflow" where
  "executeMealReminder context now s =
     (let message = (case map_of (data context) ''message'' of
                       None \<Rightarrow> ''Time to log your meal!''
                     | Some m \<Rightarrow> if m \<noteq> [] then m else ''Time to log your meal!'')
      in s\<lparr>reminderEntries :=
             AList.update (ctx_userId context, now)
               \<lparr>re_type = ''meal-reminder'', re_message = message, sentAt = now\<rparr>
               (reminderEntries s)\<rparr>)"

text \<open>\<open>executeWorkflow\<close>: the task body chosen by name; an unknown name throws.\<close>

definition executeWorkflow ::
  "string \<Rightarrow> WorkflowContext \<Rightarrow> int \<Rightarrow> ReminderWorkflow \<Rightarrow> (string + unit) \<times> ReminderWorkflow" where
  "executeWorkflow workflowName context now s =
     (if workflowName = ''meal-reminder'' then (Inr (), executeMealReminder context now s)
      else if workflowName = ''daily-summary'' then (Inr (), s)
      else if workflowName = ''goal-check-in'' then (Inr (), s)
      else (Inl (''Unknown workflow: '' @ workflowName), s))"

text \<open>The body of the loop of \<open>handleAlarm\<close>, for one storage entry.\<close>

definition sweepEntry :: "int \<Rightarrow> ReminderWorkflow \<Rightarrow> string \<times> WorkflowData \<Rightarrow> ReminderWorkflow" where
  "sweepEntry now s entry =
     (let workflowId = fst entry; wd = snd entry
      in if scheduledTime wd \<le> now then
           (let s = s\<lparr>executing := executing s @ [workflowId]\<rparr>
            in case executeWorkflow (wd_workflowName wd) (wd_context wd) now s of
                 (Inr _, s) \<Rightarrow>
                   (let s = (case map_of (scheduledReminders s) workflowId of
                               None \<Rightarrow> s
                             | Some status \<Rightarrow>
                                 s\<lparr>scheduledReminders :=
                                     AList.update workflowId
                                       (status\<lparr>state := Completed, completedAt := Some now\<rparr>)
                                       (scheduledReminders s)\<rparr>)
                    in s\<lparr>workflowEntries := AList.delete workflowId (workflowEntries s)\<rparr>)
               | (Inl err, s) \<Rightarrow>
                   (case map_of (scheduledReminders s) workflowId of
                      None \<Rightarrow> s
                    | Some status \<Rightarrow>
                        s\<lparr>scheduledReminders :=
                            AList.update workflowId
                              (status\<lparr>state := Failed, error := Some err\<rparr>)
                              (scheduledReminders s)\<rparr>))
         else s)"

text \<open>\<open>handleAlarm\<close>: the sweep. It lists the stored workflows once, in key order, runs
  the loop body on each and persists the statuses. It never reads or sets the alarm.\<close>

definition handleAlarm :: "int \<Rightarrow> ReminderWorkflow \<Rightarrow> ReminderWorkflow" where
  "handleAlarm now s =
     persistReminders (foldl (sweepEntry now) s (sort_key fst (workflowEntries s)))"

text \<open>
  \<open>NutritionAgent.alarm()\<close> (src/infrastructure/agent/NutritionAgent.ts), the only caller
  of \<open>handleAlarm\<close>. The Durable Object runtime calls it when the time of the alarm
  arrives; the alarm that fired is then no longer set, and the method sets none.
\<close>

definition NutritionAgent_alarm :: "int \<Rightarrow> ReminderWorkflow \<Rightarrow> ReminderWorkflow" where
  "NutritionAgent_alarm now s = handleAlarm now (s\<lparr>alarm := None\<rparr>)"

text \<open>The operations applied to the store, and a run of them from left to right (a
  failed schedule or cancel is an exception the caller sees; the store goes on). A sweep
  is the alarm firing.\<close>

datatype StoreOp =
    Schedule string string WorkflowContext int
  | Cancel string int
  | Sweep int

fun applyOp :: "ReminderWorkflow \<Rightarrow> StoreOp \<Rightarrow> ReminderWorkflow" where
  "applyOp s (Schedule uuid name context t) = snd (scheduleWorkflow uuid name context t s)"
| "applyOp s (Cancel workflowId now) = snd (cancelWorkflow workflowId now s)"
| "applyOp s (Sweep now) = NutritionAgent_alarm now s"

definition runOps :: "ReminderWorkflow \<Rightarrow> StoreOp list \<Rightarrow> ReminderWorkflow" where
  "runOps s ops = foldl applyOp s ops"

text \<open>The due times of the tasks the store knows as pending, and the earliest of them.\<close>

definition pendingDueTimes :: "ReminderWorkflow \<Rightarrow> int list" where
  "pendingDueTimes s =
     List.map_filter (\<lambda>(k, st). if state st = Pending then startedAt st else None)
       (scheduledReminders s)"

definition earliestPending :: "ReminderWorkflow \<Rightarrow> int option" where
  "earliestPending s =
     (case pendingDueTimes s of [] \<Rightarrow> None | t # ts \<Rightarrow> Some (foldl min t ts))"

section \<open>Strings as the handlers use them\<close>

text \<open>
  The string methods and regular expressions the handlers call, on ASCII text:
  white space is tab, line feed, vertical tab, form feed, carriage return and space, and
  \<open>toLowerCase\<close> maps \<open>A\<close>..\<open>Z\<close>. Text with other white space or letters is outside
  the model.
\<close>

definition isSpace :: "char \<Rightarrow> bool" where
  "isSpace c = (c \<in> set [CHR 0x09, CHR 0x0A, CHR 0x0B, CHR 0x0C, CHR 0x0D, CHR 0x20])"

definition trim :: "string \<Rightarrow> string" where
  "trim s = rev (dropWhile isSpace (rev (dropWhile isSpace s)))"

definition lowerChar :: "char \<Rightarrow> char" where
  "lowerChar c =
     (case map_of (zip ''ABCDEFGHIJKLMNOPQRSTUVWXYZ'' ''abcdefghijklmnopqrstuvwxyz'') c of
        None \<Rightarrow> c | Some d \<Rightarrow> d)"

definition toLowerCase :: "string \<Rightarrow> string" where
  "toLowerCase s = map lowerChar s"

text \<open>\<open>s.startsWith(p)\<close> and \<open>s.includes(p)\<close>.\<close>

definition startsWith :: "string \<Rightarrow> string \<Rightarrow> bool" where
  "startsWith s p = (take (length p) s = p)"

fun includes' :: "string \<Rightarrow> string \<Rightarrow> bool" where
  "includes' [] p = (p = [])"
| "includes' (c # cs) p = (startsWith (c # cs) p \<or> includes' cs p)"

text \<open>\<open>s.split(sep)\<close> for a one-character separator, and \<open>parts.join(sep)\<close>.\<close>

fun split :: "char \<Rightarrow> string \<Rightarrow> string list" where
  "split sep [] = [[]]"
| "split sep (c # cs) =
     (if c = sep then [] # split sep cs
      else (case split sep cs of [] \<Rightarrow> [[c]] | p # ps \<Rightarrow> (c # p) # ps))"

fun join :: "char \<Rightarrow> string list \<Rightarrow> string" where
  "join sep [] = []"
| "join sep [p] = p"
| "join sep (p # q # ps) = p @ sep # join sep (q # ps)"

text \<open>
  The regular expressions of the handlers are sequences of these pieces: a literal,
  \<open>\s+\<close>, \<open>\s*\<close>, an optional character and \<open>$\<close>. \<open>matchPrefix\<close> matches a
  sequence at the start of a string, each piece taking as much as it can, and returns
  what is left. In every expression used here a \<open>\s+\<close> is followed by a literal that
  starts with a letter and an optional character by \<open>$\<close> or \<open>\s*\<close>, so taking as much
  as possible finds a match whenever there is one.
\<close>

datatype Tok = Lit string | Ws1 | Ws0 | OptChar char | End

fun matchPrefix :: "Tok list \<Rightarrow> string \<Rightarrow> string option" where
  "matchPrefix [] s = Some s"
| "matchPrefix (Lit p # ts) s =
     (if startsWith s p then matchPrefix ts (drop (length p) s) else None)"
| "matchPrefix (Ws1 # ts) s =
     (case s of [] \<Rightarrow> None
      | c # cs \<Rightarrow> if isSpace c then matchPrefix ts (dropWhile isSpace cs) else None)"
| "matchPrefix (Ws0 # ts) s = matchPrefix ts (dropWhile isSpace s)"
| "matchPrefix (OptChar c # ts) s =
     (case s of [] \<Rightarrow> matchPrefix ts []
      | d # ds \<Rightarrow> if d = c then matchPrefix ts ds else matchPrefix ts s)"
| "matchPrefix (End # ts) s = (if s = [] then matchPrefix ts s else None)"

text \<open>\<open>/^.../.test(s)\<close>, \<open>/.../.test(s)\<close> (a match anywhere) and
  \<open>s.replace(/^.../, "")\<close>.\<close>

definition testStart :: "Tok list \<Rightarrow> string \<Rightarrow> bool" where
  "testStart ts s = (matchPrefix ts s \<noteq> None)"

fun testAnywhere :: "Tok list \<Rightarrow> string \<Rightarrow> bool" where
  "testAnywhere ts [] = testStart ts []"
| "testAnywhere ts (c # cs) = (testStart ts (c # cs) \<or> testAnywhere ts cs)"

definition removeStart :: "Tok list \<Rightarrow> string \<Rightarrow> string" where
  "removeStart ts s = (case matchPrefix ts s of None \<Rightarrow> s | Some rest \<Rightarrow> rest)"

section \<open>Command handler (src/application/handlers/CommandHandler.ts)\<close>

datatype CommandType =
  AnalyzeMeal | GetRecommendations | SetGoals | GetHistory | ScheduleReminder

record Command =
  cmd_type :: CommandType
  payload :: "(string \<times> json) list"

text \<open>The patterns of \<open>canHandle\<close>, in the order of the array.\<close>

definition commandPatterns :: "(string \<Rightarrow> bool) list" where
  "commandPatterns =
     [testStart [Lit ''analyze'', Ws1],
      testStart [Lit ''set'', Ws1, Lit ''goal''],
      testStart [Lit ''my'', Ws1, Lit ''goal'', OptChar CHR ''s'', End],
      testStart [Lit ''show'', Ws1, Lit ''history''],
      testStart [Lit ''recommend''],
      testStart [Lit ''suggest''],
      testStart [Lit ''help'', End],
      testAnywhere [Lit ''what'', Ws1, Lit ''should'', Ws1, Lit ''i'', Ws1, Lit ''eat'']]"

definition CommandHandler_canHandle :: "ChatMessage \<Rightarrow> bool" where
  "CommandHandler_canHandle message =
     (let content' = toLowerCase (trim (content message))
      in if startsWith content' ''/'' then True
         else list_ex (\<lambda>pattern. pattern content') commandPatterns)"

definition parseSlashCommand :: "string \<Rightarrow> Command option" where
  "parseSlashCommand content' =
     (let parts = split CHR '' '' content';
          commandName = (case parts of [] \<Rightarrow> [] | p # _ \<Rightarrow> drop 1 p);
          args = join CHR '' '' (drop 1 parts)
      in if commandName = ''analyze-meal'' \<or> commandName = ''analyze'' then
           Some \<lparr>cmd_type = AnalyzeMeal, payload = [(''mealDescription'', JStr args)]\<rparr>
         else if commandName = ''recommend'' \<or> commandName = ''suggestions'' then
           Some \<lparr>cmd_type = GetRecommendations, payload = []\<rparr>
         else if commandName = ''set-goals'' \<or> commandName = ''goals'' then
           Some \<lparr>cmd_type = SetGoals, payload = [(''args'', JStr args)]\<rparr>
         else if commandName = ''history'' then
           Some \<lparr>cmd_type = GetHistory, payload = []\<rparr>
         else if commandName = ''help'' then
           Some \<lparr>cmd_type = GetRecommendations, payload = [(''showHelp'', JBool True)]\<rparr>
         else None)"

definition parseNaturalCommand :: "string \<Rightarrow> Command option" where
  "parseNaturalCommand content' =
     (if startsWith content' ''analyze'' then
        Some \<lparr>cmd_type = AnalyzeMeal,
              payload = [(''mealDescription'',
                          JStr (removeStart [Lit ''analyze'', Ws1] content'))]\<rparr>
      else if includes' content' ''recommend'' \<or> includes' content' ''suggest''
              \<or> includes' content' ''what should i eat'' then
        Some \<lparr>cmd_type = GetRecommendations, payload = []\<rparr>
      else if includes' content' ''my goals'' \<or> includes' content' ''show goals'' then
        Some \<lparr>cmd_type = GetHistory, payload = [(''showGoals'', JBool True)]\<rparr>
      else if startsWith content' ''set goal'' then
        Some \<lparr>cmd_type = SetGoals,
              payload = [(''args'',
                          JStr (removeStart [Lit ''set'', Ws1, Lit ''goal'', OptChar CHR ''s'', Ws0]
                                  content'))]\<rparr>
      else if includes' content' ''show history'' \<or> includes' content' ''meal history'' then
        Some \<lparr>cmd_type = GetHistory, payload = []\<rparr>
      else None)"

definition parseCommand :: "string \<Rightarrow> Command option" where
  "parseCommand content' =
     (let trimmed = toLowerCase (trim content')
      in if startsWith trimmed ''/'' then parseSlashCommand trimmed
         else parseNaturalCommand trimmed)"

text \<open>
  \<open>handle\<close>. \<open>executeCommand\<close> stands for the private method of that name, which calls
  the use cases and the state service: it returns the response text or throws (\<open>Inl\<close>, the
  error's message). \<open>uuid\<close> and \<open>now\<close> are the id and the clock value of the response
  message. Whatever is thrown inside is caught, so \<open>handle\<close> itself never throws.
\<close>

definition CommandHandler_handle ::
  "(Command \<Rightarrow> string \<Rightarrow> string + string) \<Rightarrow> string \<Rightarrow> int \<Rightarrow> ChatMessage \<Rightarrow> string \<Rightarrow> ChatMessage" where
  \<open>CommandHandler_handle executeCommand uuid now message userId' =
     (case parseCommand (content message) of
        None \<Rightarrow>
          Message Assistant
            ''I didn't understand that command. Try "help" to see available commands.''
            uuid now
      | Some command \<Rightarrow>
          (case executeCommand command userId' of
             Inr responseContent \<Rightarrow> Message Assistant responseContent uuid now
           | Inl err \<Rightarrow>
               Message Assistant (''Sorry, I couldn't execute that command: '' @ err) uuid now))\<close>

section \<open>Chat handler (src/application/handlers/ChatMessageHandler.ts)\<close>

text \<open>\<open>canHandle\<close>: a slash command is refused; everything else is accepted, whether or
  not it contains one of the command keywords.\<close>

definition commandKeywords :: "string list" where
  "commandKeywords =
     [''analyze meal'', ''set goal'', ''my goals'', ''meal history'', ''recommend'',
      ''suggest meal'']"

definition ChatMessageHandler_canHandle :: "ChatMessage \<Rightarrow> bool" where
  "ChatMessageHandler_canHandle message =
     (let content' = toLowerCase (trim (content message))
      in if startsWith content' ''/'' then False
         else if list_ex (\<lambda>keyword. includes' content' keyword) commandKeywords then True
         else True)"

text \<open>
  \<open>handle\<close>. \<open>generateChatResponse\<close> stands for steps 1 to 7 of the method up to the
  response text (loading the context and the profile, appending to the history, calling
  the language model, saving the context): it returns the text or throws. A throw is
  answered with a fixed apology.
\<close>

definition ChatMessageHandler_handle ::
  "(ChatMessage \<Rightarrow> string \<Rightarrow> string + string) \<Rightarrow> string \<Rightarrow> int \<Rightarrow> ChatMessage \<Rightarrow> string \<Rightarrow> ChatMessage" where
  "ChatMessageHandler_handle generateChatResponse uuid now message userId' =
     (case generateChatResponse message userId' of
        Inr responseContent \<Rightarrow> Message Assistant responseContent uuid now
      | Inl err \<Rightarrow>
          Message Assistant
            ''Sorry, I encountered an error processing your message. Please try again.''
            uuid now)"

section \<open>Connection handler (src/infrastructure/websocket/ConnectionHandler.ts)\<close>

text \<open>
  A message handler (src/core/interfaces/IMessageHandler.ts): its two methods, each
  returning its value or throwing (\<open>Inl\<close>, the message \<open>getErrorMessage\<close> extracts from
  what was thrown), and a name to tell the handlers of a chain apart.
\<close>

record MessageHandler =
  handlerName :: string
  canHandle :: "ChatMessage \<Rightarrow> string + bool"
  handle :: "ChatMessage \<Rightarrow> string \<Rightarrow> string + ChatMessage"

text \<open>The frames the server sends, by their \<open>type\<close>.\<close>

datatype Frame =
    MessageFrame MessageRole string string int
  | SystemFrame string int
  | ErrorFrame string int
  | StreamStart int
  | StreamChunk string int
  | StreamEnd int

text \<open>The server's end of a connection: its state and the frames sent on it so far.\<close>

record WebSocket =
  readyState :: ReadyState
  sent :: "Frame list"

text \<open>\<open>sendMessage\<close>: \<open>ws.send\<close> on a socket that is not open throws, which is caught
  and logged.\<close>

definition sendMessage :: "WebSocket \<Rightarrow> Frame \<Rightarrow> WebSocket" where
  "sendMessage ws frame =
     (if readyState ws = OPEN then ws\<lparr>sent := sent ws @ [frame]\<rparr> else ws)"

definition sendError :: "int \<Rightarrow> WebSocket \<Rightarrow> string \<Rightarrow> WebSocket" where
  "sendError now ws errorMessage = sendMessage ws (ErrorFrame errorMessage now)"

definition registerHandler :: "MessageHandler list \<Rightarrow> MessageHandler \<Rightarrow> MessageHandler list" where
  "registerHandler handlers handler = handlers @ [handler]"

text \<open>Reading a property of a parsed JSON value: only an object has own properties
  (a parsed object has each key once).\<close>

definition jsonField :: "json \<Rightarrow> string \<Rightarrow> json option" where
  "jsonField v k = (case v of JObj props \<Rightarrow> map_of props k | _ \<Rightarrow> None)"

text \<open>
  \<open>parseMessage\<close>. \<open>parsed\<close> is the outcome of \<open>JSON.parse(messageText)\<close>: \<open>None\<close> when
  it throws, the value otherwise. Reading \<open>parsed.content\<close> of \<open>null\<close> throws as well and
  lands in the same \<open>catch\<close>. \<open>uuid\<close> and \<open>now\<close> are the id and clock value of the
  message created. \<open>None\<close> is the \<open>null\<close> result.
\<close>

definition parseMessage :: "string \<Rightarrow> int \<Rightarrow> json option \<Rightarrow> string \<Rightarrow> ChatMessage option" where
  "parseMessage uuid now parsed messageText =
     (case parsed of
        None \<Rightarrow> Some (Message User messageText uuid now)
      | Some JNull \<Rightarrow> Some (Message User messageText uuid now)
      | Some v \<Rightarrow>
          (case jsonField v ''content'' of
             Some (JStr c) \<Rightarrow> if c \<noteq> [] then Some (Message User c uuid now) else None
           | _ \<Rightarrow> None))"

text \<open>
  The loop over the handlers in \<open>handleIncomingMessage\<close>. The first component lists the
  calls made, in order; the second is how the loop ends: with something thrown by a
  handler (\<open>Inl\<close>), with the response of the first handler that accepts the message, or
  with no handler found.
\<close>

datatype Call = CalledCanHandle string | CalledHandle string

fun dispatch ::
  "MessageHandler list \<Rightarrow> ChatMessage \<Rightarrow> string \<Rightarrow> Call list \<times> (string + ChatMessage option)" where
  "dispatch [] message userId' = ([], Inr None)"
| "dispatch (h # hs) message userId' =
     (case canHandle h message of
        Inl err \<Rightarrow> ([CalledCanHandle (handlerName h)], Inl err)
      | Inr True \<Rightarrow>
          (case handle h message userId' of
             Inl err \<Rightarrow> ([CalledCanHandle (handlerName h), CalledHandle (handlerName h)], Inl err)
           | Inr response \<Rightarrow>
               ([CalledCanHandle (handlerName h), CalledHandle (handlerName h)],
                Inr (Some response)))
      | Inr False \<Rightarrow>
          (case dispatch hs message userId' of
             (calls, outcome) \<Rightarrow> (CalledCanHandle (handlerName h) # calls, outcome)))"

text \<open>
  \<open>handleIncomingMessage\<close>, on the decoded text of the frame and the outcome of parsing
  it as JSON. \<open>now\<close> is the clock value stamped on an error frame. The connection is
  only ever written to.
\<close>

definition handleIncomingMessage ::
  "MessageHandler list \<Rightarrow> string \<Rightarrow> int \<Rightarrow> WebSocket \<Rightarrow> string \<Rightarrow> string \<Rightarrow> json option \<Rightarrow> WebSocket" where
  "handleIncomingMessage handlers uuid now ws userId' messageText parsed =
     (case parseMessage uuid now parsed messageText of
        None \<Rightarrow> sendError now ws ''Invalid message format''
      | Some parsedMessage \<Rightarrow>
          (case snd (dispatch handlers parsedMessage userId') of
             Inl err \<Rightarrow> sendError now ws (''Failed to process message: '' @ err)
           | Inr (Some response) \<Rightarrow>
               sendMessage ws
                 (MessageFrame (role response) (content response) (msg_id response)
                    (timestamp response))
           | Inr None \<Rightarrow> sendError now ws ''No handler available for this message''))"

section \<open>The agent's handler chain (src/infrastructure/agent/NutritionAgent.ts)\<close>

text \<open>\<open>setupMessageHandlers\<close>: the command handler is registered first, the chat handler
  second. Neither \<open>canHandle\<close> throws, and both \<open>handle\<close> methods catch what is thrown
  inside them.\<close>

definition commandHandler ::
  "(Command \<Rightarrow> string \<Rightarrow> string + string) \<Rightarrow> string \<Rightarrow> int \<Rightarrow> MessageHandler" where
  "commandHandler executeCommand uuid now =
     \<lparr>handlerName = ''CommandHandler'',
      canHandle = (\<lambda>message. Inr (CommandHandler_canHandle message)),
      handle = (\<lambda>message userId'. Inr (CommandHandler_handle executeCommand uuid now message userId'))\<rparr>"

definition chatHandler ::
  "(ChatMessage \<Rightarrow> string \<Rightarrow> string + string) \<Rightarrow> string \<Rightarrow> int \<Rightarrow> MessageHandler" where
  "chatHandler generateChatResponse uuid now =
     \<lparr>handlerName = ''ChatMessageHandler'',
      canHandle = (\<lambda>message. Inr (ChatMessageHandler_canHandle message)),
      handle = (\<lambda>message userId'.
                  Inr (ChatMessageHandler_handle generateChatResponse uuid now message userId'))\<rparr>"

definition setupMessageHandlers ::
  "(Command \<Rightarrow> string \<Rightarrow> string + string) \<Rightarrow> (ChatMessage \<Rightarrow> string \<Rightarrow> string + string) \<Rightarrow>
   string \<Rightarrow> int \<Rightarrow> MessageHandler list" where
  "setupMessageHandlers executeCommand generateChatResponse uuid now =
     registerHandler
       (registerHandler [] (commandHandler executeCommand uuid now))
       (chatHandler generateChatResponse uuid now)"

section \<open>Bounded conversation history\<close>

lemma sliceLast_all: "length xs \<le> n \<Longrightarrow> sliceLast n xs = xs"
  by (simp add: sliceLast_def)

lemma length_sliceLast: "length (sliceLast n xs) = min n (length xs)"
  by (simp add: sliceLast_def)

lemma sliceLast_snoc: "sliceLast (Suc n) (xs @ [x]) = sliceLast n xs @ [x]"
  by (simp add: sliceLast_def)

lemma sliceLast_sliceLast_snoc:
  "0 < n \<Longrightarrow> sliceLast n (sliceLast n xs @ [x]) = sliceLast n (xs @ [x])"
proof -
  assume "0 < n"
  then obtain k where n: "n = Suc k" by (cases n) auto
  have "sliceLast (Suc k) (sliceLast (Suc k) xs @ [x]) = sliceLast k (sliceLast (Suc k) xs) @ [x]"
    by (rule sliceLast_snoc)
  also have "sliceLast k (sliceLast (Suc k) xs) = sliceLast k xs"
  proof -
    have "length xs - (length xs - Suc k + k) + (length xs - Suc k) = length xs - k"
      by arith
    then show ?thesis by (simp add: sliceLast_def)
  qed
  also have "sliceLast k xs @ [x] = sliceLast (Suc k) (xs @ [x])"
    by (simp add: sliceLast_snoc)
  finally show ?thesis by (simp add: n)
qed

lemma addMessage_history:
  "conversationHistory (addMessage ctx m) = sliceLast 20 (conversationHistory ctx @ [m])"
  by (simp add: addMessage_def Let_def sliceLast_def)

lemma foldl_addMessage_history:
  "conversationHistory (foldl addMessage ctx ms) =
     (if ms = [] then conversationHistory ctx
      else sliceLast 20 (conversationHistory ctx @ ms))"
proof (induction ms rule: rev_induct)
  case Nil
  show ?case by simp
next
  case (snoc m ms)
  show ?case
  proof (cases "ms = []")
    case True
    then show ?thesis by (simp add: addMessage_history)
  next
    case False
    with snoc show ?thesis
      by (simp add: addMessage_history sliceLast_sliceLast_snoc)
  qed
qed

text \<open>
  Claim C5. Starting from a freshly constructed context, after appending any sequence
  \<open>ms\<close> of messages with \<open>addMessage\<close> the stored history has at most 20 entries and is
  exactly the last (up to) 20 messages of \<open>ms\<close>, in append order: the oldest are dropped first.
  The same holds after every prefix of the sequence, since \<open>ms\<close> is arbitrary.
\<close>

theorem addMessage_keeps_last_20:
  "length (conversationHistory (foldl addMessage (newNutritionContext now) ms)) \<le> 20 \<and>
   conversationHistory (foldl addMessage (newNutritionContext now) ms)
     = drop (length ms - 20) ms"
proof -
  have h: "conversationHistory (foldl addMessage (newNutritionContext now) ms) = sliceLast 20 ms"
    by (simp add: foldl_addMessage_history newNutritionContext_def sliceLast_def)
  show ?thesis
    unfolding h by (simp add: sliceLast_def)
qed

section \<open>Persistence round trip\<close>

text \<open>
  Claim C9. Serialising a UserProfile or a NutritionContext with \<open>toJSON\<close> and reloading
  it with \<open>fromJSON\<close> gives back a record equal in every field (userId, goals, mealHistory,
  preferences, createdAt, updatedAt; conversationHistory, currentMeal, userGoals,
  sessionStartTime), whatever the clock reads when the record is reloaded.
\<close>

theorem toJSON_fromJSON_roundtrip:
  "UserProfile_fromJSON now (UserProfile_toJSON p) = p \<and>
   NutritionContext_fromJSON now' (NutritionContext_toJSON ctx) = ctx"
  by (simp add: UserProfile_fromJSON_def UserProfile_toJSON_def newUserProfile_def
      NutritionContext_fromJSON_def NutritionContext_toJSON_def newNutritionContext_def)

section \<open>Client reconnect protocol\<close>

lemma step_timeouts:
  assumes "shouldReconnectRef s" "reconnectAttemptsRef s \<le> 5" "e \<in> {Close, TimerFired, Error}"
  shows "shouldReconnectRef (step s e) \<and>
         reconnectAttemptsRef (step s e) = min 5 (reconnectAttemptsRef s + (if e = Close then 1 else 0)) \<and>
         timeouts (step s e) = timeouts s @ take (if e = Close then 1 else 0) (drop (reconnectAttemptsRef s) [2000, 4000, 8000, 16000, 30000])"
proof -
  from assms(2) consider "reconnectAttemptsRef s = 0" | "reconnectAttemptsRef s = 1" | "reconnectAttemptsRef s = 2"
    | "reconnectAttemptsRef s = 3" | "reconnectAttemptsRef s = 4" | "reconnectAttemptsRef s = 5" by linarith
  then show ?thesis using assms(1,3)
    by cases (auto simp: onclose_def connect_def onerror_def maxReconnectAttempts_def Let_def)
qed

lemma take_one_more:
  "take d (drop a xs) @ take k (drop (min (length xs) (a + d)) xs) = take (d + k) (drop a xs)"
proof (cases "a + d \<le> length xs")
  case True
  then have "min (length xs) (a + d) = a + d" by simp
  moreover have "drop (a + d) xs = drop d (drop a xs)" by (simp add: add.commute)
  ultimately show ?thesis by (simp add: take_add)
next
  case False
  then show ?thesis by simp
qed

lemma run_timeouts:
  assumes "shouldReconnectRef s" "reconnectAttemptsRef s \<le> 5" "set evs \<subseteq> {Close, TimerFired, Error}"
  shows "shouldReconnectRef (run s evs) \<and>
         reconnectAttemptsRef (run s evs) = min 5 (reconnectAttemptsRef s + count_list evs Close) \<and>
         timeouts (run s evs) = timeouts s @ take (count_list evs Close) (drop (reconnectAttemptsRef s) [2000, 4000, 8000, 16000, 30000])"
  using assms
proof (induction evs arbitrary: s)
  case Nil
  then show ?case by (simp add: run_def)
next
  case (Cons e es)
  let ?d = "if e = Close then 1 else 0 :: nat"
  let ?D = "[2000, 4000, 8000, 16000, 30000] :: nat list"
  from Cons.prems have e: "e \<in> {Close, TimerFired, Error}" and es: "set es \<subseteq> {Close, TimerFired, Error}"
    by auto
  note st = step_timeouts [OF Cons.prems(1,2) e]
  have le: "reconnectAttemptsRef (step s e) \<le> 5" using st by simp
  note ih = Cons.IH [OF conjunct1 [OF st] le es]
  have r: "run s (e # es) = run (step s e) es" by (simp add: run_def)
  have c: "count_list (e # es) Close = ?d + count_list es Close" by simp
  have t: "take ?d (drop (reconnectAttemptsRef s) ?D)
             @ take (count_list es Close) (drop (min (length ?D) (reconnectAttemptsRef s + ?d)) ?D)
           = take (?d + count_list es Close) (drop (reconnectAttemptsRef s) ?D)"
    by (rule take_one_more)
  have a: "reconnectAttemptsRef (step s e) = min (length ?D) (reconnectAttemptsRef s + ?d)"
    using st by simp
  show ?case
    unfolding r c using ih st t unfolding a by (simp only: append_assoc) auto
qed

text \<open>
  Claim C6. Start with the retry counter at 0 and reconnects allowed, and let any sequence
  of close events, socket errors and reconnect-timeout firings happen, with no successful
  open and no intentional shutdown in between. The delays of the reconnect attempts that
  get scheduled are then, in order, \<open>min (1000 * 2 ^ n) 30000\<close> for \<open>n = 1, ..., 5\<close>
  (2000, 4000, 8000, 16000, 30000 ms), one for each of the first five closes. Once five
  closes have happened, a further close schedules nothing and leaves the hook disconnected
  with no socket; an explicit \<open>connect()\<close> then starts a new attempt.
\<close>

theorem reconnect_backoff_then_stop:
  assumes "reconnectAttemptsRef s = 0" and "shouldReconnectRef s"
    and "set evs \<subseteq> {Close, TimerFired, Error}"
  shows "timeouts (run s evs) =
           timeouts s @ take (count_list evs Close) (map (\<lambda>n. min (1000 * 2 ^ n) 30000) [1..<6]) \<and>
         (5 \<le> count_list evs Close \<longrightarrow>
            timeouts (onclose (run s evs)) = timeouts (run s evs) \<and>
            \<not> isConnected (onclose (run s evs)) \<and>
            wsRef (onclose (run s evs)) = None \<and>
            wsRef (connect (onclose (run s evs))) = Some CONNECTING)"
proof -
  have le: "reconnectAttemptsRef s \<le> 5" using assms(1) by simp
  note r = run_timeouts [OF assms(2) le assms(3)]
  have d: "map (\<lambda>n. min (1000 * 2 ^ n) 30000) [1..<6] = [2000, 4000, 8000, 16000, 30000 :: nat]"
    by (simp add: upt_rec)
  have one: "timeouts (run s evs) =
           timeouts s @ take (count_list evs Close) (map (\<lambda>n. min (1000 * 2 ^ n) 30000) [1..<6])"
    using r assms(1) unfolding d by simp
  have two: "timeouts (onclose (run s evs)) = timeouts (run s evs)" if "5 \<le> count_list evs Close"
  proof -
    have "reconnectAttemptsRef (run s evs) = 5" using r that assms(1) by simp
    then show ?thesis by (simp add: onclose_def maxReconnectAttempts_def Let_def)
  qed
  have three: "\<not> isConnected (onclose t) \<and> wsRef (onclose t) = None \<and>
               wsRef (connect (onclose t)) = Some CONNECTING" for t
    by (simp add: onclose_def connect_def Let_def)
  show ?thesis using one two three by blast
qed

text \<open>The theorem at the freshly mounted hook, with five closes each followed by its
  timeout firing, and then the sixth close.\<close>

theorem reconnect_backoff_then_stop_witness:
  "reconnectAttemptsRef (mount initialSupervisor) = 0 \<and>
   shouldReconnectRef (mount initialSupervisor) \<and>
   timeouts (run (mount initialSupervisor)
       [Close, TimerFired, Close, TimerFired, Close, TimerFired, Close, TimerFired, Close, TimerFired])
     = [2000, 4000, 8000, 16000, 30000] \<and>
   timeouts (onclose (run (mount initialSupervisor)
       [Close, TimerFired, Close, TimerFired, Close, TimerFired, Close, TimerFired, Close, TimerFired]))
     = [2000, 4000, 8000, 16000, 30000] \<and>
   \<not> isConnected (onclose (run (mount initialSupervisor)
       [Close, TimerFired, Close, TimerFired, Close, TimerFired, Close, TimerFired, Close, TimerFired]))"
proof -
  have a: "reconnectAttemptsRef (mount initialSupervisor) = 0"
    by (simp add: mount_def connect_def initialSupervisor_def)
  have b: "shouldReconnectRef (mount initialSupervisor)"
    by (simp add: mount_def connect_def initialSupervisor_def)
  have c: "set [Close, TimerFired, Close, TimerFired, Close, TimerFired, Close, TimerFired, Close, TimerFired]
             \<subseteq> {Close, TimerFired, Error}" by simp
  have t0: "timeouts (mount initialSupervisor) = []"
    by (simp add: mount_def connect_def initialSupervisor_def)
  show ?thesis
    using reconnect_backoff_then_stop [OF a b c] a b t0 by (simp add: upt_rec)
qed

section \<open>Inbound frames on the client\<close>

text \<open>
  Claim C10. A parsed inbound frame whose type is none of \<open>message\<close>, \<open>system\<close>,
  \<open>error\<close>, or whose content field is absent, never reaches the \<open>onMessage\<close> callback;
  in particular the frames \<open>stream_start\<close>, \<open>stream_chunk\<close> and \<open>stream_end\<close> are
  dropped, with or without content.
\<close>

theorem stream_frames_discarded:
  "(wm_type d \<notin> {Some ''message'', Some ''system'', Some ''error''} \<or> wm_content d = None
      \<longrightarrow> onmessage uuid (Some d) = None) \<and>
   (wm_type d \<in> {Some ''stream_start'', Some ''stream_chunk'', Some ''stream_end''}
      \<longrightarrow> onmessage uuid (Some d) = None)"
  by (auto simp: onmessage_def truthy_def)

text \<open>A \<open>stream_chunk\<close> frame carrying text, and a \<open>message\<close> frame with no content.\<close>

theorem stream_frames_discarded_witness:
  "onmessage ''u-1'' (Some \<lparr>wm_type = Some ''stream_chunk'', wm_role = None,
      wm_content = Some ''partial text'', wm_messageId = None, wm_timestamp = 17\<rparr>) = None \<and>
   onmessage ''u-1'' (Some \<lparr>wm_type = Some ''message'', wm_role = Some Assistant,
      wm_content = None, wm_messageId = Some ''m1'', wm_timestamp = 17\<rparr>) = None"
  using stream_frames_discarded [of "\<lparr>wm_type = Some ''stream_chunk'', wm_role = None,
      wm_content = Some ''partial text'', wm_messageId = None, wm_timestamp = 17\<rparr>" "''u-1''"]
    stream_frames_discarded [of "\<lparr>wm_type = Some ''message'', wm_role = Some Assistant,
      wm_content = None, wm_messageId = Some ''m1'', wm_timestamp = 17\<rparr>" "''u-1''"]
  by simp

section \<open>The wake-up timer of the scheduled-task store\<close>

lemma alarm_sweepEntry: "alarm (sweepEntry now s e) = alarm s"
  by (simp add: sweepEntry_def executeWorkflow_def executeMealReminder_def Let_def
      split: option.splits)

lemma alarm_foldl_sweepEntry: "alarm (foldl (sweepEntry now) s es) = alarm s"
  by (induction es arbitrary: s) (simp_all add: alarm_sweepEntry)

lemma alarm_handleAlarm: "alarm (handleAlarm now s) = alarm s"
  by (simp add: handleAlarm_def persistReminders_def alarm_foldl_sweepEntry)

lemma alarm_NutritionAgent_alarm: "alarm (NutritionAgent_alarm now s) = None"
  by (simp add: NutritionAgent_alarm_def alarm_handleAlarm)

text \<open>
  Claim C1 says that after every sequence of schedule, sweep and cancel operations the
  single wake-up timer is set to the due time of the earliest pending task the store
  knows, \<open>schedule\<close> re-arming it to the minimum of the current timer and the new due
  time and a sweep re-arming it to the next pending task. The code does otherwise:
  the only \<open>setAlarm\<close> of the class is the one in \<open>scheduleWorkflow\<close>, which overwrites
  the timer with the new due time, and \<open>handleAlarm\<close> never arms it. Below, scheduling
  \<open>w1\<close> for 100 and then \<open>w2\<close> for 200 leaves the timer at 200 while \<open>w1\<close> is due at
  100; and scheduling \<open>w1\<close> for 200, then \<open>w2\<close> for 100, and sweeping at 100 runs \<open>w2\<close>
  only and leaves \<open>w1\<close> pending, due at 200, with no timer armed.
\<close>

theorem timer_misses_earliest_pending:
  "alarm (runOps emptyReminderWorkflow
      [Schedule ''x'' ''meal-reminder'' \<lparr>ctx_userId = ''u1'', ctx_workflowId = ''w1'', data = []\<rparr> 100,
       Schedule ''y'' ''daily-summary'' \<lparr>ctx_userId = ''u1'', ctx_workflowId = ''w2'', data = []\<rparr> 200])
     = Some 200 \<and>
   earliestPending (runOps emptyReminderWorkflow
      [Schedule ''x'' ''meal-reminder'' \<lparr>ctx_userId = ''u1'', ctx_workflowId = ''w1'', data = []\<rparr> 100,
       Schedule ''y'' ''daily-summary'' \<lparr>ctx_userId = ''u1'', ctx_workflowId = ''w2'', data = []\<rparr> 200])
     = Some 100 \<and>
   alarm (runOps emptyReminderWorkflow
      [Schedule ''x'' ''meal-reminder'' \<lparr>ctx_userId = ''u1'', ctx_workflowId = ''w1'', data = []\<rparr> 200,
       Schedule ''y'' ''daily-summary'' \<lparr>ctx_userId = ''u1'', ctx_workflowId = ''w2'', data = []\<rparr> 100,
       Sweep 100])
     = None \<and>
   earliestPending (runOps emptyReminderWorkflow
      [Schedule ''x'' ''meal-reminder'' \<lparr>ctx_userId = ''u1'', ctx_workflowId = ''w1'', data = []\<rparr> 200,
       Schedule ''y'' ''daily-summary'' \<lparr>ctx_userId = ''u1'', ctx_workflowId = ''w2'', data = []\<rparr> 100,
       Sweep 100])
     = Some 200 \<and>
   executing (runOps emptyReminderWorkflow
      [Schedule ''x'' ''meal-reminder'' \<lparr>ctx_userId = ''u1'', ctx_workflowId = ''w1'', data = []\<rparr> 200,
       Schedule ''y'' ''daily-summary'' \<lparr>ctx_userId = ''u1'', ctx_workflowId = ''w2'', data = []\<rparr> 100,
       Sweep 100])
     = [''w2'']"
  by (simp add: runOps_def scheduleWorkflow_def persistReminders_def emptyReminderWorkflow_def
      NutritionAgent_alarm_def handleAlarm_def sweepEntry_def executeWorkflow_def
      earliestPending_def pendingDueTimes_def List.map_filter_def validDate_def Let_def)

section \<open>Cancelling a scheduled task\<close>

text \<open>
  Claim C2 says that a pending task on which cancel succeeded is never executed by a later
  sweep. The code does otherwise: \<open>cancelWorkflow\<close> changes the status only and leaves the
  stored entry \<open>workflow:<id>\<close> in place, and \<open>handleAlarm\<close> runs every stored entry that
  is due without looking at its status. Below, the task \<open>w1\<close> is scheduled for 1000 and
  cancelled at 500; the sweep at 1000 runs its body (the id is logged and the reminder
  is written) and marks it completed.
\<close>

theorem cancelled_task_is_swept:
  "fst (cancelWorkflow ''w1'' 500 (snd (scheduleWorkflow ''x'' ''meal-reminder''
       \<lparr>ctx_userId = ''u1'', ctx_workflowId = ''w1'', data = []\<rparr> 1000 emptyReminderWorkflow)))
     = Inr () \<and>
   map_option state (map_of (scheduledReminders (runOps emptyReminderWorkflow
       [Schedule ''x'' ''meal-reminder'' \<lparr>ctx_userId = ''u1'', ctx_workflowId = ''w1'', data = []\<rparr> 1000,
        Cancel ''w1'' 500])) ''w1'') = Some Cancelled \<and>
   executing (runOps emptyReminderWorkflow
       [Schedule ''x'' ''meal-reminder'' \<lparr>ctx_userId = ''u1'', ctx_workflowId = ''w1'', data = []\<rparr> 1000,
        Cancel ''w1'' 500, Sweep 1000]) = [''w1''] \<and>
   reminderEntries (runOps emptyReminderWorkflow
       [Schedule ''x'' ''meal-reminder'' \<lparr>ctx_userId = ''u1'', ctx_workflowId = ''w1'', data = []\<rparr> 1000,
        Cancel ''w1'' 500, Sweep 1000])
     = [((''u1'', 1000), \<lparr>re_type = ''meal-reminder'', re_message = ''Time to log your meal!'',
                           sentAt = 1000\<rparr>)] \<and>
   map_option state (map_of (scheduledReminders (runOps emptyReminderWorkflow
       [Schedule ''x'' ''meal-reminder'' \<lparr>ctx_userId = ''u1'', ctx_workflowId = ''w1'', data = []\<rparr> 1000,
        Cancel ''w1'' 500, Sweep 1000])) ''w1'') = Some Completed"
  by (simp add: runOps_def scheduleWorkflow_def cancelWorkflow_def persistReminders_def
      NutritionAgent_alarm_def handleAlarm_def sweepEntry_def executeWorkflow_def
      executeMealReminder_def emptyReminderWorkflow_def validDate_def Let_def)

lemma map_of_update_same: "map_of (AList.update k v al) k = Some v"
  by (simp add: update_conv')

text \<open>
  Claim C3, as stated, fails: cancelling a task that is already cancelled succeeds.
\<close>

theorem cancel_of_cancelled_succeeds_counterexample:
  "map_option state (map_of (scheduledReminders (runOps emptyReminderWorkflow
       [Schedule ''x'' ''meal-reminder'' \<lparr>ctx_userId = ''u1'', ctx_workflowId = ''w1'', data = []\<rparr> 1000,
        Cancel ''w1'' 500])) ''w1'') = Some Cancelled \<and>
   fst (cancelWorkflow ''w1'' 600 (runOps emptyReminderWorkflow
       [Schedule ''x'' ''meal-reminder'' \<lparr>ctx_userId = ''u1'', ctx_workflowId = ''w1'', data = []\<rparr> 1000,
        Cancel ''w1'' 500])) = Inr ()"
  by (simp add: runOps_def scheduleWorkflow_def cancelWorkflow_def persistReminders_def
      emptyReminderWorkflow_def Let_def)

text \<open>
  Claim C3, amended. For every known task id, cancel succeeds, setting the task's state
  to cancelled, if and only if the task is pending, running or already cancelled;
  cancelling a completed or failed task fails with the state error
  \<open>Cannot cancel <state> workflow\<close> and leaves the store, and so the task's state, unchanged.
\<close>

theorem cancel_iff_not_completed_or_failed:
  assumes "map_of (scheduledReminders s) i = Some st"
  shows "(fst (cancelWorkflow i now s) = Inr () \<longleftrightarrow> state st \<in> {Pending, Running, Cancelled}) \<and>
         (state st \<in> {Pending, Running, Cancelled} \<longrightarrow>
            map_option state (map_of (scheduledReminders (snd (cancelWorkflow i now s))) i)
              = Some Cancelled) \<and>
         (state st \<in> {Completed, Failed} \<longrightarrow>
            fst (cancelWorkflow i now s) = Inl (''Cannot cancel '' @ stateName (state st) @ '' workflow'') \<and>
            snd (cancelWorkflow i now s) = s)"
proof (cases "state st")
  case Pending
  with assms show ?thesis
    by (simp add: cancelWorkflow_def persistReminders_def Let_def map_of_update_same)
next
  case Running
  with assms show ?thesis
    by (simp add: cancelWorkflow_def persistReminders_def Let_def map_of_update_same)
next
  case Completed
  with assms show ?thesis by (simp add: cancelWorkflow_def)
next
  case Failed
  with assms show ?thesis by (simp add: cancelWorkflow_def)
next
  case Cancelled
  with assms show ?thesis
    by (simp add: cancelWorkflow_def persistReminders_def Let_def map_of_update_same)
qed

text \<open>The theorem at a task that has just been scheduled.\<close>

theorem cancel_iff_not_completed_or_failed_witness:
  "map_of (scheduledReminders (runOps emptyReminderWorkflow
       [Schedule ''x'' ''meal-reminder'' \<lparr>ctx_userId = ''u1'', ctx_workflowId = ''w1'', data = []\<rparr> 1000]))
     ''w1''
     = Some \<lparr>st_workflowId = ''w1'', st_workflowName = ''meal-reminder'', state = Pending,
             startedAt = Some 1000, completedAt = None, error = None\<rparr> \<and>
   fst (cancelWorkflow ''w1'' 500 (runOps emptyReminderWorkflow
       [Schedule ''x'' ''meal-reminder'' \<lparr>ctx_userId = ''u1'', ctx_workflowId = ''w1'', data = []\<rparr> 1000]))
     = Inr () \<and>
   map_option state (map_of (scheduledReminders (snd (cancelWorkflow ''w1'' 500
       (runOps emptyReminderWorkflow
         [Schedule ''x'' ''meal-reminder'' \<lparr>ctx_userId = ''u1'', ctx_workflowId = ''w1'', data = []\<rparr> 1000]))))
     ''w1'') = Some Cancelled"
proof -
  have a: "map_of (scheduledReminders (runOps emptyReminderWorkflow
       [Schedule ''x'' ''meal-reminder'' \<lparr>ctx_userId = ''u1'', ctx_workflowId = ''w1'', data = []\<rparr> 1000]))
     ''w1''
     = Some \<lparr>st_workflowId = ''w1'', st_workflowName = ''meal-reminder'', state = Pending,
             startedAt = Some 1000, completedAt = None, error = None\<rparr>"
    by (simp add: runOps_def scheduleWorkflow_def persistReminders_def
        emptyReminderWorkflow_def Let_def)
  show ?thesis
    using cancel_iff_not_completed_or_failed [OF a, of 500] a by simp
qed

section \<open>Command precedence in the handler chain\<close>




lemma chain_eq:
  "setupMessageHandlers ex gen uuid now = [commandHandler ex uuid now, chatHandler gen uuid now]"
  by (simp add: setupMessageHandlers_def registerHandler_def)





section \<open>Exceptions during dispatch\<close>

lemma readyState_sendMessage: "readyState (sendMessage ws f) = readyState ws"
  by (simp add: sendMessage_def)

lemma readyState_sendError: "readyState (sendError now ws e) = readyState ws"
  by (simp add: sendError_def readyState_sendMessage)

lemma readyState_handleIncomingMessage:
  "readyState (handleIncomingMessage hs uuid now ws u text parsed) = readyState ws"
  by (simp add: handleIncomingMessage_def readyState_sendMessage readyState_sendError
      split: option.splits sum.splits)

lemma sent_sendError_open:
  "readyState ws = OPEN \<Longrightarrow> sent (sendError now ws e) = sent ws @ [ErrorFrame e now]"
  by (simp add: sendError_def sendMessage_def)

text \<open>
  Claim C4, as stated, fails. When a handler's \<open>canHandle\<close> throws \<open>boom\<close>, the sender
  receives one frame of type \<open>error\<close> with the content
  \<open>Failed to process message: boom\<close>, not an assistant-role message. When text generation
  fails inside the chat handler, the sender receives an assistant-role apology that does
  not carry the error detail.
\<close>

theorem exception_not_assistant_apology_counterexample:
  "sent (handleIncomingMessage [\<lparr>handlerName = ''H'', canHandle = (\<lambda>m. Inl ''boom''),
                            handle = (\<lambda>m u. Inl ''unused'')\<rparr>]
       ''p1'' 8 \<lparr>readyState = OPEN, sent = []\<rparr> ''u1'' ''hello'' None)
     = [ErrorFrame ''Failed to process message: boom'' 8] \<and>
   sent (handleIncomingMessage
       (setupMessageHandlers (\<lambda>c u. Inr ''done'') (\<lambda>m u. Inl ''model unavailable'') ''r1'' 9)
       ''p1'' 8 \<lparr>readyState = OPEN, sent = []\<rparr> ''u1'' ''hello'' None)
     = [MessageFrame Assistant
          ''Sorry, I encountered an error processing your message. Please try again.''
          ''r1'' 9]"
  by (simp add: handleIncomingMessage_def parseMessage_def sendError_def sendMessage_def
      chain_eq commandHandler_def chatHandler_def CommandHandler_canHandle_def
      ChatMessageHandler_canHandle_def ChatMessageHandler_handle_def Message_def
      trim_def isSpace_def startsWith_def toLowerCase_def lowerChar_def
      commandPatterns_def testStart_def Let_def)

text \<open>
  Claim C4, amended. For every inbound frame whose dispatch raises an exception out of a
  handler's \<open>canHandle\<close> or \<open>handle\<close>, the exception is caught at the dispatch boundary and
  the sender receives a frame of type \<open>error\<close> whose content is
  \<open>Failed to process message: \<close> followed by the error detail. An exception raised while
  the command handler executes a command is caught inside that handler and answered with
  an assistant-role apology with the error detail appended; one raised while the chat
  handler generates its response is caught inside that handler and answered with a fixed
  assistant-role apology. The connection is never closed by the processing of a frame.
\<close>

theorem escaped_exception_becomes_error_frame:
  "(parseMessage uuid now parsed text = Some pm \<and> snd (dispatch hs pm u) = Inl e \<longrightarrow>
      handleIncomingMessage hs uuid now ws u text parsed
        = sendError now ws (''Failed to process message: '' @ e) \<and>
      (readyState ws = OPEN \<longrightarrow>
         sent (handleIncomingMessage hs uuid now ws u text parsed)
           = sent ws @ [ErrorFrame (''Failed to process message: '' @ e) now])) \<and>
   readyState (handleIncomingMessage hs uuid now ws u text parsed) = readyState ws \<and>
   (parseCommand (content m) = Some c \<and> ex c u = Inl e \<longrightarrow>
      CommandHandler_handle ex uuid' now' m u
        = Message Assistant (''Sorry, I couldn't execute that command: '' @ e) uuid' now') \<and>
   (gen m u = Inl e \<longrightarrow>
      ChatMessageHandler_handle gen uuid' now' m u
        = Message Assistant
            ''Sorry, I encountered an error processing your message. Please try again.''
            uuid' now')"
proof -
  have boundary: "handleIncomingMessage hs uuid now ws u text parsed
        = sendError now ws (''Failed to process message: '' @ e)"
    if "parseMessage uuid now parsed text = Some pm" "snd (dispatch hs pm u) = Inl e"
    using that by (simp add: handleIncomingMessage_def)
  have frames: "sent (handleIncomingMessage hs uuid now ws u text parsed)
           = sent ws @ [ErrorFrame (''Failed to process message: '' @ e) now]"
    if "parseMessage uuid now parsed text = Some pm" "snd (dispatch hs pm u) = Inl e"
      "readyState ws = OPEN"
    using boundary [OF that(1,2)] sent_sendError_open [OF that(3)] by simp
  have cmd: "CommandHandler_handle ex uuid' now' m u
        = Message Assistant (''Sorry, I couldn't execute that command: '' @ e) uuid' now'"
    if "parseCommand (content m) = Some c" "ex c u = Inl e"
    using that by (simp add: CommandHandler_handle_def)
  have chat: "ChatMessageHandler_handle gen uuid' now' m u
        = Message Assistant
            ''Sorry, I encountered an error processing your message. Please try again.''
            uuid' now'"
    if "gen m u = Inl e"
    using that by (simp add: ChatMessageHandler_handle_def)
  show ?thesis
    using boundary frames cmd chat readyState_handleIncomingMessage by blast
qed

text \<open>The theorem at a handler whose \<open>canHandle\<close> throws, at the command
  \<open>/analyze pizza\<close> whose execution throws, and at a chat message whose generation
  throws.\<close>

theorem escaped_exception_becomes_error_frame_witness:
  "parseMessage ''p1'' 8 None ''hello'' = Some (Message User ''hello'' ''p1'' 8) \<and>
   snd (dispatch [\<lparr>handlerName = ''H'', canHandle = (\<lambda>m. Inl ''boom''),
                    handle = (\<lambda>m u. Inl ''unused'')\<rparr>]
          (Message User ''hello'' ''p1'' 8) ''u1'') = Inl ''boom'' \<and>
   handleIncomingMessage [\<lparr>handlerName = ''H'', canHandle = (\<lambda>m. Inl ''boom''),
                            handle = (\<lambda>m u. Inl ''unused'')\<rparr>]
       ''p1'' 8 \<lparr>readyState = OPEN, sent = []\<rparr> ''u1'' ''hello'' None
     = \<lparr>readyState = OPEN, sent = [ErrorFrame ''Failed to process message: boom'' 8]\<rparr> \<and>
   parseCommand (content (Message User ''/analyze pizza'' ''p2'' 8))
     = Some \<lparr>cmd_type = AnalyzeMeal, payload = [(''mealDescription'', JStr ''pizza'')]\<rparr> \<and>
   CommandHandler_handle (\<lambda>c u. Inl ''model unavailable'') ''r1'' 9
       (Message User ''/analyze pizza'' ''p2'' 8) ''u1''
     = Message Assistant ''Sorry, I couldn't execute that command: model unavailable'' ''r1'' 9 \<and>
   ChatMessageHandler_handle (\<lambda>m u. Inl ''model unavailable'') ''r1'' 9
       (Message User ''hello'' ''p1'' 8) ''u1''
     = Message Assistant
         ''Sorry, I encountered an error processing your message. Please try again.'' ''r1'' 9"
proof -
  have a: "parseMessage ''p1'' 8 None ''hello'' = Some (Message User ''hello'' ''p1'' 8)"
    by (simp add: parseMessage_def)
  have b: "snd (dispatch [\<lparr>handlerName = ''H'', canHandle = (\<lambda>m. Inl ''boom''),
                    handle = (\<lambda>m u. Inl ''unused'')\<rparr>]
          (Message User ''hello'' ''p1'' 8) ''u1'') = Inl ''boom''"
    by simp
  have c: "parseCommand (content (Message User ''/analyze pizza'' ''p2'' 8))
     = Some \<lparr>cmd_type = AnalyzeMeal, payload = [(''mealDescription'', JStr ''pizza'')]\<rparr>"
    by (simp add: parseCommand_def parseSlashCommand_def Message_def
        trim_def isSpace_def startsWith_def toLowerCase_def lowerChar_def Let_def)
  have d: "(\<lambda>c u. Inl ''model unavailable'' :: string + string)
             \<lparr>cmd_type = AnalyzeMeal, payload = [(''mealDescription'', JStr ''pizza'')]\<rparr> ''u1''
           = Inl ''model unavailable''"
    by simp
  have e: "readyState \<lparr>readyState = OPEN, sent = []\<rparr> = OPEN" by simp
  show ?thesis
    using escaped_exception_becomes_error_frame
      [of "''p1''" 8 None "''hello''" "Message User ''hello'' ''p1'' 8"
        "[\<lparr>handlerName = ''H'', canHandle = (\<lambda>m. Inl ''boom''),
           handle = (\<lambda>m u. Inl ''unused'')\<rparr>]"
        "''u1''" "''boom''" "\<lparr>readyState = OPEN, sent = []\<rparr>"
        "Message User ''hello'' ''p1'' 8"
        "\<lparr>cmd_type = AnalyzeMeal, payload = [(''mealDescription'', JStr ''pizza'')]\<rparr>"
        "\<lambda>c u. Inl ''model unavailable''"
        "''r1''" 9 "\<lambda>m u. Inl ''model unavailable''"]
      escaped_exception_becomes_error_frame
      [of "''p1''" 8 None "''hello''" "Message User ''hello'' ''p1'' 8"
        "[\<lparr>handlerName = ''H'', canHandle = (\<lambda>m. Inl ''boom''),
           handle = (\<lambda>m u. Inl ''unused'')\<rparr>]"
        "''u1''" "''model unavailable''" "\<lparr>readyState = OPEN, sent = []\<rparr>"
        "Message User ''/analyze pizza'' ''p2'' 8"
        "\<lparr>cmd_type = AnalyzeMeal, payload = [(''mealDescription'', JStr ''pizza'')]\<rparr>"
        "\<lambda>c u. Inl ''model unavailable''"
        "''r1''" 9 "\<lambda>m u. Inl ''model unavailable''"]
      a b c
    by (simp add: sendError_def sendMessage_def ChatMessageHandler_handle_def)
qed

section \<open>Parsing an inbound frame\<close>

lemma parseMessage_Some_cases:
  "parseMessage uuid now (Some v) text =
     (if v = JNull then Some (Message User text uuid now)
      else (case jsonField v ''content'' of
              Some (JStr c) \<Rightarrow> if c \<noteq> [] then Some (Message User c uuid now) else None
            | _ \<Rightarrow> None))"
  by (cases v) (simp_all add: parseMessage_def)

lemma parseMessage_reject:
  assumes "v \<noteq> JNull" and "\<not> (\<exists>c. c \<noteq> [] \<and> jsonField v ''content'' = Some (JStr c))"
  shows "parseMessage uuid now (Some v) text = None"
proof (cases "jsonField v ''content''")
  case None
  with assms(1) show ?thesis by (simp add: parseMessage_Some_cases)
next
  case (Some w)
  with assms show ?thesis
    by (cases w) (simp_all add: parseMessage_Some_cases)
qed


lemma handleIncomingMessage_fallback:
  "handleIncomingMessage hs uuid now ws u text None =
        (case snd (dispatch hs (Message User text uuid now) u) of
           Inl e \<Rightarrow> sendError now ws (''Failed to process message: '' @ e)
         | Inr (Some response) \<Rightarrow>
             sendMessage ws (MessageFrame (role response) (content response) (msg_id response)
                               (timestamp response))
         | Inr None \<Rightarrow> sendError now ws ''No handler available for this message'')"
  by (simp add: handleIncomingMessage_def parseMessage_def)

text \<open>
  Claim C8, as stated, fails. The frame \<open>{"text":"hi"}\<close> is valid JSON without a
  \<open>content\<close> field: it is not turned into a message with the raw text as content but
  rejected with the error frame \<open>Invalid message format\<close>, and no handler sees it. The
  same happens to the frame \<open>42\<close>.
\<close>

theorem structured_input_without_content_rejected_counterexample:
  \<open>parseMessage ''p1'' 8 (Some (JObj [(''text'', JStr ''hi'')])) ''{"text":"hi"}'' = None \<and>
   sent (handleIncomingMessage
       (setupMessageHandlers (\<lambda>c u. Inr ''done'') (\<lambda>m u. Inr ''hi there'') ''r1'' 9)
       ''p1'' 8 \<lparr>readyState = OPEN, sent = []\<rparr> ''u1'' ''{"text":"hi"}''
       (Some (JObj [(''text'', JStr ''hi'')])))
     = [ErrorFrame ''Invalid message format'' 8] \<and>
   parseMessage ''p1'' 8 (Some (JNum 42)) ''42'' = None\<close>
  by (simp add: handleIncomingMessage_def parseMessage_def jsonField_def sendError_def
      sendMessage_def)

text \<open>
  Claim C8, amended. For every inbound frame whose raw data is not valid JSON, the parse
  step falls back to treating the entire raw text as the content of a user-role message,
  which is then dispatched through the handler chain rather than rejected. A frame that
  is valid JSON, other than \<open>null\<close>, and is not an object carrying a non-empty string
  \<open>content\<close> field is rejected with the error frame \<open>Invalid message format\<close> and is
  not dispatched.
\<close>

theorem raw_text_fallback_for_non_json:
  "(parsed = None \<longrightarrow>
      parseMessage uuid now parsed text = Some (Message User text uuid now) \<and>
      handleIncomingMessage hs uuid now ws u text parsed =
        (case snd (dispatch hs (Message User text uuid now) u) of
           Inl e \<Rightarrow> sendError now ws (''Failed to process message: '' @ e)
         | Inr (Some response) \<Rightarrow>
             sendMessage ws (MessageFrame (role response) (content response) (msg_id response)
                               (timestamp response))
         | Inr None \<Rightarrow> sendError now ws ''No handler available for this message'')) \<and>
   (parsed = Some v \<and> v \<noteq> JNull \<and>
    \<not> (\<exists>c. c \<noteq> [] \<and> jsonField v ''content'' = Some (JStr c)) \<longrightarrow>
      parseMessage uuid now parsed text = None \<and>
      handleIncomingMessage hs uuid now ws u text parsed
        = sendError now ws ''Invalid message format'')"
proof (intro conjI impI)
  assume "parsed = None"
  then show "parseMessage uuid now parsed text = Some (Message User text uuid now)"
    by (simp add: parseMessage_def)
next
  assume "parsed = None"
  then show "handleIncomingMessage hs uuid now ws u text parsed =
        (case snd (dispatch hs (Message User text uuid now) u) of
           Inl e \<Rightarrow> sendError now ws (''Failed to process message: '' @ e)
         | Inr (Some response) \<Rightarrow>
             sendMessage ws (MessageFrame (role response) (content response) (msg_id response)
                               (timestamp response))
         | Inr None \<Rightarrow> sendError now ws ''No handler available for this message'')"
    by (simp only: handleIncomingMessage_fallback)
next
  assume a: "parsed = Some v \<and> v \<noteq> JNull \<and>
    \<not> (\<exists>c. c \<noteq> [] \<and> jsonField v ''content'' = Some (JStr c))"
  then have r: "parseMessage uuid now (Some v) text = None"
    using parseMessage_reject by blast
  from a r show "parseMessage uuid now parsed text = None" by simp
  from a r show "handleIncomingMessage hs uuid now ws u text parsed
        = sendError now ws ''Invalid message format''"
    by (simp add: handleIncomingMessage_def)
qed

text \<open>The theorem at the raw text \<open>hello {\<close>, which is not JSON, and at the frame
  \<open>{"content":""}\<close>.\<close>

theorem raw_text_fallback_for_non_json_witness:
  \<open>handleIncomingMessage
       (setupMessageHandlers (\<lambda>c u. Inr ''done'') (\<lambda>m u. Inr ''hi there'') ''r1'' 9)
       ''p1'' 8 \<lparr>readyState = OPEN, sent = []\<rparr> ''u1'' ''hello {'' None
     = \<lparr>readyState = OPEN, sent = [MessageFrame Assistant ''hi there'' ''r1'' 9]\<rparr> \<and>
   handleIncomingMessage
       (setupMessageHandlers (\<lambda>c u. Inr ''done'') (\<lambda>m u. Inr ''hi there'') ''r1'' 9)
       ''p1'' 8 \<lparr>readyState = OPEN, sent = []\<rparr> ''u1'' ''{"content":""}''
       (Some (JObj [(''content'', JStr '''')]))
     = \<lparr>readyState = OPEN, sent = [ErrorFrame ''Invalid message format'' 8]\<rparr>\<close>
proof -
  let ?hs = "setupMessageHandlers (\<lambda>c u. Inr ''done'') (\<lambda>m u. Inr ''hi there'') ''r1'' 9"
  let ?ws = "\<lparr>readyState = OPEN, sent = []\<rparr>"
  let ?v = "JObj [(''content'', JStr '''')]"
  have b: "Some ?v = Some ?v \<and> ?v \<noteq> JNull \<and>
           \<not> (\<exists>c. c \<noteq> [] \<and> jsonField ?v ''content'' = Some (JStr c))"
    by (simp add: jsonField_def)
  have c: "snd (dispatch ?hs (Message User ''hello {'' ''p1'' 8) ''u1'')
           = Inr (Some (Message Assistant ''hi there'' ''r1'' 9))"
    by (simp add: chain_eq commandHandler_def chatHandler_def CommandHandler_canHandle_def
      ChatMessageHandler_canHandle_def ChatMessageHandler_handle_def Message_def
      trim_def isSpace_def startsWith_def toLowerCase_def lowerChar_def
      commandPatterns_def testStart_def Let_def)
  have one: "handleIncomingMessage ?hs ''p1'' 8 ?ws ''u1'' ''hello {'' None =
        (case snd (dispatch ?hs (Message User ''hello {'' ''p1'' 8) ''u1'') of
           Inl e \<Rightarrow> sendError 8 ?ws (''Failed to process message: '' @ e)
         | Inr (Some response) \<Rightarrow>
             sendMessage ?ws (MessageFrame (role response) (content response) (msg_id response)
                               (timestamp response))
         | Inr None \<Rightarrow> sendError 8 ?ws ''No handler available for this message'')"
    using raw_text_fallback_for_non_json [of None "''p1''" 8 "''hello {''" ?hs ?ws "''u1''" ?v]
    by (simp only: simp_thms)
  have one': "handleIncomingMessage ?hs ''p1'' 8 ?ws ''u1'' ''hello {'' None
     = \<lparr>readyState = OPEN, sent = [MessageFrame Assistant ''hi there'' ''r1'' 9]\<rparr>"
    unfolding one c by (simp add: sendMessage_def Message_def)
  have two: "handleIncomingMessage ?hs ''p1'' 8 ?ws ''u1'' rawText (Some ?v)
        = sendError 8 ?ws ''Invalid message format''" for rawText
    using raw_text_fallback_for_non_json [of "Some ?v" "''p1''" 8 rawText ?hs ?ws "''u1''" ?v] b
    by blast
  have two': "handleIncomingMessage ?hs ''p1'' 8 ?ws ''u1'' rawText (Some ?v)
     = \<lparr>readyState = OPEN, sent = [ErrorFrame ''Invalid message format'' 8]\<rparr>" for rawText
    unfolding two by (simp add: sendError_def sendMessage_def)
  show ?thesis
    using one' two' by (simp only: simp_thms)
qed

end
